theory Spec2Isabelle
  imports Complex_Main
begin

section \<open>Voice-conversion pipeline (rvc\_pipeline.py) and separator (audio\_utils.py)\<close>

text \<open>
  Conventions of the embedding.
  \<^item> A waveform is a \<open>real list\<close>: Python floats are read as real numbers, so
    rounding, overflow, NaN and infinities are outside the model.
  \<^item> A sample rate is a \<open>nat\<close> (every caller passes the integer rate that
    \<^verbatim>\<open>librosa.load\<close> returned).
  \<^item> A spectrogram is a list of rows, one row per frequency bin, each row holding one
    value per time frame (numpy's \<^verbatim>\<open>S[bin, frame]\<close> is \<open>S ! bin ! frame\<close>).
  \<^item> An exception is a value of type \<open>error\<close>; a function that may raise returns
    \<open>error + 'a\<close> with \<open>Inl\<close> for the exception.
  \<^item> Functions of librosa, numpy, scipy, soundfile, shutil and the separation model
    are not code of this repository. They are fields of the records \<open>dsp\<close> and
    \<open>sep_env\<close> and the theorems hold for every value of these fields.
\<close>

subsection \<open>Exceptions\<close>

datatype error =
    ImportError
  | FileNotFoundError
  | SameFileError
  | OSError
  | RuntimeError
  | ValueError
  | IndexError
  | OtherException

text \<open>The subclasses of Python's \<^verbatim>\<open>OSError\<close> that the model distinguishes.\<close>

definition is_os_error :: "error \<Rightarrow> bool" where
  "is_os_error e = (e = FileNotFoundError \<or> e = SameFileError \<or> e = OSError)"

subsection \<open>External signal-processing functions\<close>

record dsp =
  librosa_stft :: "real list \<Rightarrow> error + complex list list"
  librosa_istft :: "complex list list \<Rightarrow> error + real list"
  librosa_fft_frequencies :: "nat \<Rightarrow> real list"
  librosa_lpc :: "real list \<Rightarrow> nat \<Rightarrow> error + real list"
  np_roots :: "real list \<Rightarrow> error + complex list"
  librosa_piptrack :: "real list \<Rightarrow> nat \<Rightarrow> real \<Rightarrow> error + (real list list \<times> real list list)"
  librosa_pitch_shift :: "real list \<Rightarrow> nat \<Rightarrow> int \<Rightarrow> error + real list"

text \<open>
  \<open>librosa_piptrack\<close> returns the pair (pitches, magnitudes) frame by frame: element
  \<open>t\<close> of either list is the column \<^verbatim>\<open>[:, t]\<close> of the numpy array.
\<close>

subsection \<open>Formant Estimator: \<^verbatim>\<open>estimate_formants\<close>\<close>

definition default_formants :: "real list" where
  "default_formants = [700, 1220, 2600]"

text \<open>
  The \<^verbatim>\<open>try\<close> block with its two handlers: an exception of \<^verbatim>\<open>librosa.lpc\<close> or of
  \<^verbatim>\<open>np.roots\<close> ends in the default set. \<^verbatim>\<open>np.angle\<close> is \<open>Arg\<close>;
  \<^verbatim>\<open>np.isfinite\<close> keeps every real number.
\<close>

definition estimate_formants :: "dsp \<Rightarrow> real list \<Rightarrow> nat \<Rightarrow> real list" where
  "estimate_formants lib audio_data sr =
     (let lpc_order = min 12 (length audio_data div 100) in
      if lpc_order > 0 \<and> length audio_data > 100 then
        (case librosa_lpc lib audio_data lpc_order of
           Inl e \<Rightarrow> default_formants
         | Inr lpc_coeffs \<Rightarrow>
             (case np_roots lib lpc_coeffs of
                Inl e \<Rightarrow> default_formants
              | Inr all_roots \<Rightarrow>
                  (let roots = filter (\<lambda>z. Im z \<ge> 0) all_roots;
                       angles = map Arg roots;
                       formants0 = map (\<lambda>a. a * real sr / (2 * pi)) angles;
                       formants1 = filter (\<lambda>f. f < real (sr div 2)) formants0;
                       formants2 = filter (\<lambda>f. f > 50) formants1
                   in if length formants2 > 0 then sort formants2
                      else default_formants)))
      else default_formants)"

subsection \<open>Formant Shifter: \<^verbatim>\<open>apply_formant_shift_filter\<close> and \<^verbatim>\<open>apply_formant_shift\<close>\<close>

text \<open>The band mask of formant number \<open>i\<close>, evaluated at one frequency \<open>f\<close>.\<close>

definition band_mask :: "real list \<Rightarrow> real \<Rightarrow> nat \<Rightarrow> real \<Rightarrow> bool" where
  "band_mask formants formant_shift i f =
     (let shifted_freq = formants ! i * formant_shift in
      if i = 0 then
        f \<ge> shifted_freq * 0.7 \<and> f \<le> shifted_freq * 1.3
      else if i = length formants - 1 then
        f \<ge> shifted_freq * 0.7 \<and> f \<le> shifted_freq * 1.3
      else
        (let prev_freq = (if i > 0 then formants ! (i - 1) * formant_shift
                          else shifted_freq * 0.7);
             next_freq = (if i < length formants - 1 then formants ! (i + 1) * formant_shift
                          else shifted_freq * 1.3)
         in f \<ge> prev_freq \<and> f \<le> next_freq))"

text \<open>The factor of the in-place multiplication, chosen by the sign of \<open>formant_shift - 1\<close>.\<close>

definition band_gain :: "real \<Rightarrow> real" where
  "band_gain formant_shift =
     (if formant_shift > 1.0 then 1.0 + (formant_shift - 1.0) * 0.5
      else 0.8 + (formant_shift - 1.0) * 0.4)"

text \<open>One pass of the loop body: \<^verbatim>\<open>shifted_magnitude[band_mask] *= gain\<close>.\<close>

definition scale_band ::
  "real list \<Rightarrow> real list \<Rightarrow> real \<Rightarrow> real list list \<Rightarrow> nat \<Rightarrow> real list list" where
  "scale_band freqs formants formant_shift shifted_magnitude i =
     map2 (\<lambda>f row. if band_mask formants formant_shift i f
                    then map (\<lambda>m. m * band_gain formant_shift) row else row)
          freqs shifted_magnitude"

text \<open>
  A boolean mask indexes the rows of the magnitude array, so numpy raises
  \<^verbatim>\<open>IndexError\<close> in the first pass when the mask and the array differ in length.
\<close>

definition apply_formant_shift_filter ::
  "real list list \<Rightarrow> real list \<Rightarrow> real list \<Rightarrow> real \<Rightarrow> error + real list list" where
  "apply_formant_shift_filter magnitude freqs formants formant_shift =
     (if formants \<noteq> [] \<and> length freqs \<noteq> length magnitude then Inl IndexError
      else Inr (foldl (scale_band freqs formants formant_shift) magnitude
                  [0 ..< length formants]))"

text \<open>How many formant bands contain the frequency \<open>f\<close>.\<close>

definition band_count :: "real list \<Rightarrow> real \<Rightarrow> real \<Rightarrow> nat" where
  "band_count formants formant_shift f =
     length (filter (\<lambda>i. band_mask formants formant_shift i f) [0 ..< length formants])"

text \<open>
  \<^verbatim>\<open>apply_formant_shift\<close> up to the line
  \<^verbatim>\<open>shifted_stft = shifted_magnitude * np.exp(1j * phase)\<close>, and the whole function.
\<close>

definition formant_shifted_stft ::
  "dsp \<Rightarrow> real list \<Rightarrow> nat \<Rightarrow> real \<Rightarrow> error + complex list list" where
  "formant_shifted_stft lib audio_data sr formant_shift =
     (case librosa_stft lib audio_data of
        Inl e \<Rightarrow> Inl e
      | Inr stft \<Rightarrow>
          (let magnitude = map (map cmod) stft;
               phase = map (map Arg) stft;
               freqs = librosa_fft_frequencies lib sr;
               formants = estimate_formants lib audio_data sr
           in case apply_formant_shift_filter magnitude freqs formants formant_shift of
                Inl e \<Rightarrow> Inl e
              | Inr shifted_magnitude \<Rightarrow>
                  Inr (map2 (map2 rcis) shifted_magnitude phase)))"

definition apply_formant_shift ::
  "dsp \<Rightarrow> real list \<Rightarrow> nat \<Rightarrow> real \<Rightarrow> error + real list" where
  "apply_formant_shift lib audio_data sr formant_shift =
     (case formant_shifted_stft lib audio_data sr formant_shift of
        Inl e \<Rightarrow> Inl e
      | Inr shifted_stft \<Rightarrow> librosa_istft lib shifted_stft)"

subsection \<open>Pitch Extractor: \<^verbatim>\<open>extract_pitch_rmvpe\<close>, \<^verbatim>\<open>extract_pitch_harvest\<close>, \<^verbatim>\<open>extract_pitch_pm\<close>\<close>

text \<open>\<^verbatim>\<open>ndarray.argmax\<close>: the first index of the largest entry, \<^verbatim>\<open>ValueError\<close> on an empty array.\<close>

fun argmax_from :: "nat \<Rightarrow> real \<Rightarrow> nat \<Rightarrow> real list \<Rightarrow> nat" where
  "argmax_from best best_val i [] = best"
| "argmax_from best best_val i (x # xs) =
     (if x > best_val then argmax_from i x (Suc i) xs
      else argmax_from best best_val (Suc i) xs)"

definition np_argmax :: "real list \<Rightarrow> error + nat" where
  "np_argmax xs = (case xs of [] \<Rightarrow> Inl ValueError | x # rest \<Rightarrow> Inr (argmax_from 0 x 1 rest))"

text \<open>
  The loop \<^verbatim>\<open>for t in range(pitches.shape[1])\<close>, which is the same text in the three
  extractors.
\<close>

fun main_pitch_track :: "real list list \<Rightarrow> real list list \<Rightarrow> error + (real list \<times> real list)" where
  "main_pitch_track [] magnitudes = Inr ([], [])"
| "main_pitch_track (p # pitches) magnitudes =
     (case np_argmax p of
        Inl e \<Rightarrow> Inl e
      | Inr index \<Rightarrow>
          (case magnitudes of
             [] \<Rightarrow> Inl IndexError
           | m # magnitudes' \<Rightarrow>
               if index < length m then
                 (case main_pitch_track pitches magnitudes' of
                    Inl e \<Rightarrow> Inl e
                  | Inr (pitch_values, magnitude_values) \<Rightarrow>
                      Inr (p ! index # pitch_values, m ! index # magnitude_values))
               else Inl IndexError))"

definition extract_pitch_rmvpe :: "dsp \<Rightarrow> real list \<Rightarrow> nat \<Rightarrow> error + (real list \<times> real list)" where
  "extract_pitch_rmvpe lib audio_data sr =
     (case librosa_piptrack lib audio_data sr 0.1 of
        Inl e \<Rightarrow> Inl e
      | Inr (pitches, magnitudes) \<Rightarrow> main_pitch_track pitches magnitudes)"

definition extract_pitch_harvest :: "dsp \<Rightarrow> real list \<Rightarrow> nat \<Rightarrow> error + (real list \<times> real list)" where
  "extract_pitch_harvest lib audio_data sr =
     (case librosa_piptrack lib audio_data sr 0.2 of
        Inl e \<Rightarrow> Inl e
      | Inr (pitches, magnitudes) \<Rightarrow> main_pitch_track pitches magnitudes)"

definition extract_pitch_pm :: "dsp \<Rightarrow> real list \<Rightarrow> nat \<Rightarrow> error + (real list \<times> real list)" where
  "extract_pitch_pm lib audio_data sr =
     (case librosa_piptrack lib audio_data sr 0.3 of
        Inl e \<Rightarrow> Inl e
      | Inr (pitches, magnitudes) \<Rightarrow> main_pitch_track pitches magnitudes)"


subsection \<open>Conversion Engine: steps 3 to 5 of \<^verbatim>\<open>convert_voice\<close>\<close>

text \<open>Step 3, the \<^verbatim>\<open>if/elif/else\<close> on the algorithm selector.\<close>

definition extract_pitch ::
  "dsp \<Rightarrow> string \<Rightarrow> real list \<Rightarrow> nat \<Rightarrow> error + (real list \<times> real list)" where
  "extract_pitch lib algorithm vocal_data sr =
     (if algorithm = ''rmvpe'' then extract_pitch_rmvpe lib vocal_data sr
      else if algorithm = ''harvest'' then extract_pitch_harvest lib vocal_data sr
      else extract_pitch_pm lib vocal_data sr)"

definition pitch_shift_audio :: "dsp \<Rightarrow> real list \<Rightarrow> nat \<Rightarrow> int \<Rightarrow> error + real list" where
  "pitch_shift_audio lib audio_data sr pitch_shift = librosa_pitch_shift lib audio_data sr pitch_shift"

text \<open>
  Steps 3 and 4 together; the result is the triple (vocal data, pitches, magnitudes)
  that step 5 and \<^verbatim>\<open>apply_rvc_conversion\<close> receive.
\<close>

definition convert_voice_pitch ::
  "dsp \<Rightarrow> string \<Rightarrow> int \<Rightarrow> real list \<Rightarrow> nat \<Rightarrow> error + (real list \<times> real list \<times> real list)" where
  "convert_voice_pitch lib algorithm pitch_shift vocal_data sr =
     (case extract_pitch lib algorithm vocal_data sr of
        Inl e \<Rightarrow> Inl e
      | Inr (pitches, magnitudes) \<Rightarrow>
          if pitch_shift \<noteq> 0 then
            (case pitch_shift_audio lib vocal_data sr pitch_shift of
               Inl e \<Rightarrow> Inl e
             | Inr shifted_vocal \<Rightarrow>
                 Inr (shifted_vocal,
                      map (\<lambda>p. p * 2 powr (real_of_int pitch_shift / 12)) pitches,
                      magnitudes))
          else Inr (vocal_data, pitches, magnitudes))"

text \<open>Step 5: the Formant Shifter runs only when the ratio is more than 0.01 away from 1.\<close>

definition convert_voice_formant :: "dsp \<Rightarrow> real \<Rightarrow> real list \<Rightarrow> nat \<Rightarrow> error + real list" where
  "convert_voice_formant lib formant_shift vocal_data sr =
     (if \<bar>formant_shift - 1.0\<bar> > 0.01 then apply_formant_shift lib vocal_data sr formant_shift
      else Inr vocal_data)"

subsection \<open>Target Preprocessor: \<^verbatim>\<open>remove_noise_simple\<close>\<close>





subsection \<open>Separator: files, external model and the three states\<close>

type_synonym path = string
type_synonym bytes = "nat list"

text \<open>
  The file system holds regular files only: a path is mapped to the bytes stored under
  it. Two different paths are two different files.
\<close>

type_synonym fs = "path \<Rightarrow> bytes option"

text \<open>What \<^verbatim>\<open>librosa.load(path, sr=None, mono=False)\<close> returns: an array with one or two axes.\<close>

datatype audio = Mono "real list" | Channels "real list list"

text \<open>
  Everything of the separator that is not code of the repository. An \<open>error option\<close>
  is the outcome of a call made for its effect: \<open>None\<close> when it returns,
  \<open>Some e\<close> when it raises \<open>e\<close>. The three \<open>_present\<close> flags say whether the guarded
  imports at the top of the module succeeded. \<open>os_path_stem p\<close> is
  \<^verbatim>\<open>os.path.splitext(os.path.basename(p))[0]\<close>. \<open>writable p\<close> says whether a file can be
  created or replaced at \<open>p\<close>.
\<close>

record sep_env =
  librosa_present :: bool
  soundfile_present :: bool
  pedalboard_present :: bool
  import_torch :: "error option"
  torch_set_default_device :: "error option"
  import_audio_separator :: "error option"
  os_makedirs :: "path \<Rightarrow> error option"
  separator_new :: "error option"
  separator_separate :: "path \<Rightarrow> path \<Rightarrow> string \<Rightarrow> fs \<Rightarrow> error option \<times> fs"
  os_path_dirname :: "path \<Rightarrow> path"
  os_path_stem :: "path \<Rightarrow> string"
  os_path_join :: "path \<Rightarrow> string \<Rightarrow> path"
  writable :: "path \<Rightarrow> bool"
  decode_audio :: "bytes \<Rightarrow> error + (audio \<times> nat)"
  librosa_preemphasis :: "real list \<Rightarrow> error + real list"
  pedalboard_board :: "real list \<Rightarrow> nat \<Rightarrow> error + real list"
  wav_encode :: "real list \<Rightarrow> nat \<Rightarrow> error + bytes"

definition os_path_exists :: "fs \<Rightarrow> path \<Rightarrow> bool" where
  "os_path_exists files p = (files p \<noteq> None)"

text \<open>
  \<^verbatim>\<open>shutil.copy2\<close>: a missing source, then source and destination being the same
  file, then the write itself can fail; otherwise the destination holds the source's bytes.
\<close>

definition shutil_copy2 :: "sep_env \<Rightarrow> path \<Rightarrow> path \<Rightarrow> fs \<Rightarrow> error option \<times> fs" where
  "shutil_copy2 env src dst files =
     (case files src of
        None \<Rightarrow> (Some FileNotFoundError, files)
      | Some content \<Rightarrow>
          if src = dst then (Some SameFileError, files)
          else if \<not> writable env dst then (Some OSError, files)
          else (None, files(dst \<mapsto> content)))"

text \<open>\<^verbatim>\<open>shutil.move\<close>: a rename that replaces the destination and removes the source.\<close>

definition shutil_move :: "sep_env \<Rightarrow> path \<Rightarrow> path \<Rightarrow> fs \<Rightarrow> error option \<times> fs" where
  "shutil_move env src dst files =
     (case files src of
        None \<Rightarrow> (Some FileNotFoundError, files)
      | Some content \<Rightarrow>
          if src = dst then (None, files)
          else if \<not> writable env dst then (Some OSError, files)
          else (None, (files(src := None))(dst \<mapsto> content)))"

text \<open>\<^verbatim>\<open>sf.write(path, data, sr)\<close>; \<^verbatim>\<open>sf\<close> is \<^verbatim>\<open>None\<close> when soundfile is not installed.\<close>

definition sf_write :: "sep_env \<Rightarrow> path \<Rightarrow> real list \<Rightarrow> nat \<Rightarrow> fs \<Rightarrow> error option \<times> fs" where
  "sf_write env p data sr files =
     (if \<not> soundfile_present env then (Some OtherException, files)
      else case wav_encode env data sr of
             Inl e \<Rightarrow> (Some e, files)
           | Inr content \<Rightarrow>
               if \<not> writable env p then (Some RuntimeError, files)
               else (None, files(p \<mapsto> content)))"

definition librosa_load :: "sep_env \<Rightarrow> path \<Rightarrow> fs \<Rightarrow> error + (audio \<times> nat)" where
  "librosa_load env p files =
     (case files p of None \<Rightarrow> Inl FileNotFoundError | Some content \<Rightarrow> decode_audio env content)"

text \<open>The two ordered lists of file-name patterns of state A.\<close>

definition vocal_patterns :: "string \<Rightarrow> string list" where
  "vocal_patterns base_name =
     [base_name @ ''_Vocals.wav'', base_name @ ''_vocals.wav'',
      base_name @ ''_Instrument.wav'', base_name @ ''_instruments.wav'',
      base_name @ ''_Stem_01.wav'']"

definition instrumental_patterns :: "string \<Rightarrow> string list" where
  "instrumental_patterns base_name =
     [base_name @ ''_Instruments.wav'', base_name @ ''_instruments.wav'',
      base_name @ ''_Instrument.wav'', base_name @ ''_Stem_00.wav'']"

text \<open>
  State A: the body of the \<^verbatim>\<open>try\<close> block of \<^verbatim>\<open>separate_vocals_instrumental\<close>. The result
  pairs what the body returned or raised with the file system it left behind.
\<close>

definition primary_separation ::
  "sep_env \<Rightarrow> path \<Rightarrow> path \<Rightarrow> path \<Rightarrow> fs \<Rightarrow> (error + path \<times> path) \<times> fs" where
  "primary_separation env input_music_path vocal_output_path instrumental_output_path files =
     (case import_torch env of Some e \<Rightarrow> (Inl e, files) | None \<Rightarrow>
      case torch_set_default_device env of Some e \<Rightarrow> (Inl e, files) | None \<Rightarrow>
      case import_audio_separator env of Some e \<Rightarrow> (Inl e, files) | None \<Rightarrow>
      case os_makedirs env (os_path_dirname env vocal_output_path) of
        Some e \<Rightarrow> (Inl e, files) | None \<Rightarrow>
      case os_makedirs env (os_path_dirname env instrumental_output_path) of
        Some e \<Rightarrow> (Inl e, files) | None \<Rightarrow>
      case separator_new env of Some e \<Rightarrow> (Inl e, files) | None \<Rightarrow>
      case separator_separate env input_music_path (os_path_dirname env vocal_output_path)
             (os_path_stem env input_music_path) files of
        (Some e, files1) \<Rightarrow> (Inl e, files1)
      | (None, files1) \<Rightarrow>
          (let base_name = os_path_stem env input_music_path;
               output_dir = os_path_dirname env vocal_output_path;
               vocal_result =
                 find (os_path_exists files1) (map (os_path_join env output_dir) (vocal_patterns base_name));
               instrumental_result =
                 find (os_path_exists files1)
                   (map (os_path_join env output_dir) (instrumental_patterns base_name))
           in case (case vocal_result of
                      Some candidate \<Rightarrow> shutil_move env candidate vocal_output_path files1
                    | None \<Rightarrow> shutil_copy2 env input_music_path vocal_output_path files1) of
                (Some e, files2) \<Rightarrow> (Inl e, files2)
              | (None, files2) \<Rightarrow>
                  (case (case instrumental_result of
                           Some candidate \<Rightarrow>
                             shutil_move env candidate instrumental_output_path files2
                         | None \<Rightarrow>
                             shutil_copy2 env input_music_path instrumental_output_path files2) of
                     (Some e, files3) \<Rightarrow> (Inl e, files3)
                   | (None, files3) \<Rightarrow>
                       (Inr (vocal_output_path, instrumental_output_path), files3))))"

text \<open>
  State B: \<^verbatim>\<open>_simple_vocal_separation\<close>. The body of its \<^verbatim>\<open>try\<close> block comes first; the
  handler turns every exception of the body into a new \<^verbatim>\<open>Exception\<close>. The rows of an
  array have one length, so \<open>map2\<close> on two channels loses nothing.
\<close>

definition simple_vocal_separation_body ::
  "sep_env \<Rightarrow> path \<Rightarrow> path \<Rightarrow> path \<Rightarrow> fs \<Rightarrow> (error + path \<times> path) \<times> fs" where
  "simple_vocal_separation_body env input_path vocal_output_path instrumental_output_path files =
     (case librosa_load env input_path files of
        Inl e \<Rightarrow> (Inl e, files)
      | Inr (y0, sr) \<Rightarrow>
          (let y1 = (case y0 of Mono samples \<Rightarrow> [samples, samples] | Channels chans \<Rightarrow> chans);
               y = (if length y1 = 1 then [y1 ! 0, y1 ! 0] else y1)
           in if length y \<ge> 2 then
                (let left_channel = y ! 0;
                     right_channel = y ! 1;
                     vocal_center = map2 (\<lambda>l r. (l + r) / 2) left_channel right_channel;
                     instrumental_side = map2 (\<lambda>l r. l - r) left_channel right_channel
                 in case librosa_preemphasis env vocal_center of
                      Inl e \<Rightarrow> (Inl e, files)
                    | Inr emphasized \<Rightarrow>
                        (let vocal =
                               (if pedalboard_present env then
                                  (case pedalboard_board env emphasized sr of
                                     Inl board_error \<Rightarrow> emphasized
                                   | Inr processed \<Rightarrow> processed)
                                else emphasized)
                         in case sf_write env vocal_output_path vocal sr files of
                              (Some e, files1) \<Rightarrow> (Inl e, files1)
                            | (None, files1) \<Rightarrow>
                                (case sf_write env instrumental_output_path instrumental_side sr files1 of
                                   (Some e, files2) \<Rightarrow> (Inl e, files2)
                                 | (None, files2) \<Rightarrow>
                                     (Inr (vocal_output_path, instrumental_output_path), files2))))
              else
                (case shutil_copy2 env input_path vocal_output_path files of
                   (Some e, files1) \<Rightarrow> (Inl e, files1)
                 | (None, files1) \<Rightarrow>
                     (case shutil_copy2 env input_path instrumental_output_path files1 of
                        (Some e, files2) \<Rightarrow> (Inl e, files2)
                      | (None, files2) \<Rightarrow>
                          (Inr (vocal_output_path, instrumental_output_path), files2)))))"

definition simple_vocal_separation ::
  "sep_env \<Rightarrow> path \<Rightarrow> path \<Rightarrow> path \<Rightarrow> fs \<Rightarrow> (error + path \<times> path) \<times> fs" where
  "simple_vocal_separation env input_path vocal_output_path instrumental_output_path files =
     (if \<not> librosa_present env then (Inl ImportError, files)
      else case simple_vocal_separation_body env input_path vocal_output_path
                  instrumental_output_path files of
             (Inl e, files') \<Rightarrow> (Inl OtherException, files')
           | (Inr r, files') \<Rightarrow> (Inr r, files'))"

text \<open>State C: the two copies in the innermost handler.\<close>

definition copy_original ::
  "sep_env \<Rightarrow> path \<Rightarrow> path \<Rightarrow> path \<Rightarrow> fs \<Rightarrow> (error + path \<times> path) \<times> fs" where
  "copy_original env input_music_path vocal_output_path instrumental_output_path files =
     (case shutil_copy2 env input_music_path vocal_output_path files of
        (Some e, files1) \<Rightarrow> (Inl e, files1)
      | (None, files1) \<Rightarrow>
          (case shutil_copy2 env input_music_path instrumental_output_path files1 of
             (Some e, files2) \<Rightarrow> (Inl e, files2)
           | (None, files2) \<Rightarrow> (Inr (vocal_output_path, instrumental_output_path), files2)))"

text \<open>
  \<^verbatim>\<open>separate_vocals_instrumental\<close>: the existence check, state A, the handler
  \<^verbatim>\<open>except ImportError\<close> (which raises \<^verbatim>\<open>ImportError\<close> again), and the handler
  \<^verbatim>\<open>except Exception\<close> with states B and C.
\<close>

definition separate_vocals_instrumental ::
  "sep_env \<Rightarrow> path \<Rightarrow> path \<Rightarrow> path \<Rightarrow> fs \<Rightarrow> (error + path \<times> path) \<times> fs" where
  "separate_vocals_instrumental env input_music_path vocal_output_path instrumental_output_path files =
     (if \<not> os_path_exists files input_music_path then (Inl FileNotFoundError, files)
      else case primary_separation env input_music_path vocal_output_path
                  instrumental_output_path files of
             (Inr r, files1) \<Rightarrow> (Inr r, files1)
           | (Inl e, files1) \<Rightarrow>
               if e = ImportError then (Inl ImportError, files1)
               else
                 (case simple_vocal_separation env input_music_path vocal_output_path
                         instrumental_output_path files1 of
                    (Inr r, files2) \<Rightarrow> (Inr r, files2)
                  | (Inl fallback_error, files2) \<Rightarrow>
                      copy_original env input_music_path vocal_output_path
                        instrumental_output_path files2))"

subsection \<open>Sample values of the external functions\<close>

text \<open>
  A value of \<open>dsp\<close> for the closed theorems below. Its transform has one frequency bin,
  at 600 Hz, and one frame per sample, so that \<open>librosa_istft\<close> inverts
  \<open>librosa_stft\<close> exactly; \<open>librosa_piptrack\<close> reports one frame with two candidate
  bins, 100 Hz with magnitude 5 and 200 Hz with magnitude 1; \<open>librosa_lpc\<close> returns
  coefficients and \<open>np_roots\<close> raises.
\<close>

definition sample_dsp :: dsp where
  "sample_dsp =
     \<lparr> librosa_stft = (\<lambda>y. Inr [map complex_of_real y]),
       librosa_istft = (\<lambda>S. case S of [] \<Rightarrow> Inr [] | row # rest \<Rightarrow> Inr (map Re row)),
       librosa_fft_frequencies = (\<lambda>sr. [600]),
       librosa_lpc = (\<lambda>y order. Inr (replicate (Suc order) 1)),
       np_roots = (\<lambda>coeffs. Inl ValueError),
       librosa_piptrack = (\<lambda>y sr threshold. Inr ([[100, 200]], [[5, 1]])),
       librosa_pitch_shift = (\<lambda>y sr n_steps. Inr y) \<rparr>"

text \<open>
  The same with two frequency bins, at 1000 Hz and 1200 Hz; the transform turns the
  phase of the second bin by a quarter.
\<close>

definition sample_dsp_two_bins :: dsp where
  "sample_dsp_two_bins =
     sample_dsp \<lparr> librosa_stft := (\<lambda>y. Inr [map complex_of_real y, map (\<lambda>x. \<i> * complex_of_real x) y]),
                  librosa_fft_frequencies := (\<lambda>sr. [1000, 1200]) \<rparr>"

text \<open>
  Values of \<open>sep_env\<close> and of the file system for the closed theorems below. In
  \<open>sample_env\<close> loading torch fails with an \<^verbatim>\<open>OSError\<close> (a library that cannot be
  loaded) and no file can be decoded as audio; in \<open>sample_env_no_torch\<close> torch is not
  installed.
\<close>

definition sample_env :: sep_env where
  "sample_env =
     \<lparr> librosa_present = True,
       soundfile_present = True,
       pedalboard_present = False,
       import_torch = Some OSError,
       torch_set_default_device = None,
       import_audio_separator = None,
       os_makedirs = (\<lambda>d. None),
       separator_new = None,
       separator_separate = (\<lambda>input_path output_dir base_name files. (None, files)),
       os_path_dirname = (\<lambda>p. ''out''),
       os_path_stem = (\<lambda>p. ''mix''),
       os_path_join = (\<lambda>d name. d @ ''/'' @ name),
       writable = (\<lambda>p. True),
       decode_audio = (\<lambda>content. Inl ValueError),
       librosa_preemphasis = (\<lambda>y. Inr y),
       pedalboard_board = (\<lambda>y sr. Inr y),
       wav_encode = (\<lambda>y sr. Inr [82, 73, 70, 70]) \<rparr>"

definition sample_env_no_torch :: sep_env where
  "sample_env_no_torch = sample_env \<lparr> import_torch := Some ImportError \<rparr>"

definition sample_files :: fs where
  "sample_files = Map.empty(''mix.wav'' \<mapsto> [1, 2, 3])"

definition empty_mix_files :: fs where
  "empty_mix_files = Map.empty(''mix.wav'' \<mapsto> [])"

text \<open>
  Two conditions on the external functions of the separator: the encoder never produces
  an empty file, and the separation model leaves the bytes of its input file as they are.
\<close>

definition encoder_nonempty :: "sep_env \<Rightarrow> bool" where
  "encoder_nonempty env = (\<forall>y sr content. wav_encode env y sr = Inr content \<longrightarrow> content \<noteq> [])"

definition separator_keeps :: "sep_env \<Rightarrow> path \<Rightarrow> path \<Rightarrow> fs \<Rightarrow> bool" where
  "separator_keeps env input_music_path vocal_output_path files =
     (snd (separator_separate env input_music_path (os_path_dirname env vocal_output_path)
             (os_path_stem env input_music_path) files) input_music_path
      = files input_music_path)"

section \<open>Properties of the voice-conversion pipeline\<close>

subsection \<open>Pitch strategy selection\<close>

text \<open>
  Claim C10. For every algorithm selector that is neither "rmvpe" nor "harvest", whatever
  string it is, the Conversion Engine runs the "pm" pitch extractor: the selector is never
  rejected, and the result (also an error of the extractor) is that of
  \<^verbatim>\<open>extract_pitch_pm\<close>.
\<close>

theorem unknown_algorithm_uses_pm:
  assumes "algorithm \<noteq> ''rmvpe''" and "algorithm \<noteq> ''harvest''"
  shows "extract_pitch lib algorithm vocal_data sr = extract_pitch_pm lib vocal_data sr"
  using assms by (simp add: extract_pitch_def)

theorem unknown_algorithm_uses_pm_witness:
  "''crepe'' \<noteq> ''rmvpe'' \<and> ''crepe'' \<noteq> ''harvest'' \<and>
   extract_pitch sample_dsp ''crepe'' [0, 1] 44100 = extract_pitch_pm sample_dsp [0, 1] 44100"
proof -
  have h1: "''crepe'' \<noteq> ''rmvpe''" by simp
  have h2: "''crepe'' \<noteq> ''harvest''" by simp
  from unknown_algorithm_uses_pm [OF h1 h2] h1 h2 show ?thesis by blast
qed

subsection \<open>Scaling of the pitch track\<close>

text \<open>
  Claim C3. When steps 3 and 4 of the Conversion Engine return, the pitch track they hand
  on is the extracted track multiplied elementwise by \<open>2\<close> to the power
  \<open>pitch_shift / 12\<close>: for 12 semitones every value is doubled, for 0 semitones the track
  (and the vocal waveform) is the extracted one. The magnitudes are never changed.
\<close>

theorem pitch_track_scaling:
  assumes "extract_pitch lib algorithm vocal_data sr = Inr (pitches, magnitudes)"
      and "convert_voice_pitch lib algorithm pitch_shift vocal_data sr =
             Inr (vocal', pitches', magnitudes')"
  shows "pitches' = map (\<lambda>p. p * 2 powr (real_of_int pitch_shift / 12)) pitches
       \<and> (pitch_shift = 12 \<longrightarrow> pitches' = map (\<lambda>p. p * 2) pitches)
       \<and> (pitch_shift = 0 \<longrightarrow> pitches' = pitches \<and> vocal' = vocal_data)
       \<and> magnitudes' = magnitudes"
  using assms by (auto simp: convert_voice_pitch_def split: sum.splits if_splits)

theorem pitch_track_scaling_witness:
  "extract_pitch sample_dsp ''rmvpe'' [0, 1] 44100 = Inr ([200], [1]) \<and>
   convert_voice_pitch sample_dsp ''rmvpe'' 12 [0, 1] 44100 = Inr ([0, 1], [400], [1]) \<and>
   [400] = map (\<lambda>p. p * 2) [200 :: real]"
proof -
  have h1: "extract_pitch sample_dsp ''rmvpe'' [0, 1] 44100 = Inr ([200], [1])"
    by (simp add: extract_pitch_def extract_pitch_rmvpe_def sample_dsp_def np_argmax_def)
  have h2: "convert_voice_pitch sample_dsp ''rmvpe'' 12 [0, 1] 44100 = Inr ([0, 1], [400], [1])"
    by (simp add: convert_voice_pitch_def pitch_shift_audio_def h1) (simp add: sample_dsp_def)
  from pitch_track_scaling [OF h1 h2] h1 h2 show ?thesis by simp
qed

subsection \<open>Formant Estimator\<close>

lemma estimate_formants_cases:
  "estimate_formants lib audio_data sr = default_formants \<or>
   (\<exists>fs. estimate_formants lib audio_data sr = sort fs \<and> fs \<noteq> [] \<and>
         (\<forall>f \<in> set fs. 50 < f \<and> f < real (sr div 2)))"
  by (auto simp: estimate_formants_def Let_def split: sum.splits)

lemma half_floor: "real (sr div 2) \<le> real sr / 2"
proof -
  have "2 * (sr div 2) \<le> sr" by simp
  then have "real (2 * (sr div 2)) \<le> real sr" by (rule of_nat_mono)
  then show ?thesis by simp
qed

text \<open>
  Claim C4. The Formant Estimator returns exactly the default set 700, 1220, 2600 Hz when
  the waveform has fewer than 100 samples, when the linear-prediction order
  \<open>min 12 (length div 100)\<close> is not positive, when the waveform has at most 100 samples,
  when the linear-prediction call or the root finding raises, and when no candidate
  frequency lies strictly between 50 Hz and the Nyquist frequency. Every exception is
  caught: the function has a value for every input.
\<close>

theorem estimate_formants_default:
  assumes "length audio_data < 100
         \<or> min 12 (length audio_data div 100) \<le> 0
         \<or> length audio_data \<le> 100
         \<or> (\<exists>e. librosa_lpc lib audio_data (min 12 (length audio_data div 100)) = Inl e)
         \<or> (\<exists>coeffs e. librosa_lpc lib audio_data (min 12 (length audio_data div 100)) = Inr coeffs
                \<and> np_roots lib coeffs = Inl e)
         \<or> (\<exists>coeffs roots. librosa_lpc lib audio_data (min 12 (length audio_data div 100)) = Inr coeffs
                \<and> np_roots lib coeffs = Inr roots
                \<and> (\<forall>z \<in> set roots. Im z \<ge> 0 \<longrightarrow>
                      \<not> (50 < Arg z * real sr / (2 * pi) \<and> Arg z * real sr / (2 * pi) < real sr / 2)))"
  shows "estimate_formants lib audio_data sr = [700, 1220, 2600]"
proof -
  let ?order = "min 12 (length audio_data div 100)"
  consider (short) "\<not> (?order > 0 \<and> length audio_data > 100)"
    | (lpc) e where "librosa_lpc lib audio_data ?order = Inl e"
    | (roots) coeffs e where "librosa_lpc lib audio_data ?order = Inr coeffs" "np_roots lib coeffs = Inl e"
    | (none) coeffs roots where "?order > 0" "length audio_data > 100"
        "librosa_lpc lib audio_data ?order = Inr coeffs" "np_roots lib coeffs = Inr roots"
        "\<forall>z \<in> set roots. Im z \<ge> 0 \<longrightarrow>
           \<not> (50 < Arg z * real sr / (2 * pi) \<and> Arg z * real sr / (2 * pi) < real sr / 2)"
    using assms by fastforce
  then show ?thesis
  proof cases
    case short
    then show ?thesis by (auto simp: estimate_formants_def Let_def default_formants_def)
  next
    case lpc
    then show ?thesis by (simp add: estimate_formants_def Let_def default_formants_def)
  next
    case roots
    then show ?thesis by (simp add: estimate_formants_def Let_def default_formants_def)
  next
    case none
    have "\<not> (50 < Arg z * real sr / (2 * pi) \<and> Arg z * real sr / (2 * pi) < real (sr div 2))"
      if "z \<in> set roots" "Im z \<ge> 0" for z
    proof -
      from none(5) that
      have "\<not> (50 < Arg z * real sr / (2 * pi) \<and> Arg z * real sr / (2 * pi) < real sr / 2)"
        by blast
      with half_floor[of sr] show ?thesis by linarith
    qed
    then have "filter (\<lambda>f. 50 < f) (filter (\<lambda>f. f < real (sr div 2))
                 (map (\<lambda>a. a * real sr / (2 * pi)) (map Arg (filter (\<lambda>z. Im z \<ge> 0) roots)))) = []"
      by (auto simp: filter_empty_conv)
    with none(1-4) show ?thesis
      by (simp add: estimate_formants_def Let_def default_formants_def)
  qed
qed

theorem estimate_formants_default_witness:
  "(\<exists>coeffs e. librosa_lpc sample_dsp (replicate 300 0)
                  (min 12 (length (replicate 300 (0::real)) div 100)) = Inr coeffs
               \<and> np_roots sample_dsp coeffs = Inl e)
   \<and> estimate_formants sample_dsp (replicate 300 0) 44100 = [700, 1220, 2600]"
proof -
  have h: "\<exists>coeffs e. librosa_lpc sample_dsp (replicate 300 0)
                  (min 12 (length (replicate 300 (0::real)) div 100)) = Inr coeffs
               \<and> np_roots sample_dsp coeffs = Inl e"
    by (simp add: sample_dsp_def)
  from estimate_formants_default [of "replicate 300 0" sample_dsp 44100] h
  show ?thesis by blast
qed

text \<open>
  Claim C7, as the code has it. Every set the Formant Estimator returns is sorted
  ascending and all its frequencies are above 50 Hz. All of them are below the Nyquist
  frequency \<open>sr / 2\<close> when the set was computed from the roots, or when the sample
  rate is above 5200 Hz (as at the pipeline's rate of 44100 Hz). The default set is
  returned as it is at every sample rate: at 5200 Hz or less its 2600 Hz is not below
  the Nyquist frequency.
\<close>

theorem formants_sorted_bounded:
  "sorted (estimate_formants lib audio_data sr)
   \<and> (\<forall>f \<in> set (estimate_formants lib audio_data sr). 50 < f)
   \<and> (5200 < sr \<or> estimate_formants lib audio_data sr \<noteq> [700, 1220, 2600] \<longrightarrow>
        (\<forall>f \<in> set (estimate_formants lib audio_data sr). f < real sr / 2))
   \<and> (sr \<le> 5200 \<and> estimate_formants lib audio_data sr = [700, 1220, 2600] \<longrightarrow>
        \<not> (\<forall>f \<in> set (estimate_formants lib audio_data sr). f < real sr / 2))"
proof -
  consider (d) "estimate_formants lib audio_data sr = default_formants"
    | (c) fs where "estimate_formants lib audio_data sr = sort fs" "fs \<noteq> []"
         "\<forall>f \<in> set fs. 50 < f \<and> f < real (sr div 2)"
         "estimate_formants lib audio_data sr \<noteq> default_formants"
    using estimate_formants_cases by blast
  then show ?thesis
  proof cases
    case d
    have "5200 < sr \<Longrightarrow> (2600::real) < real sr / 2" by simp
    moreover have "sr \<le> 5200 \<Longrightarrow> \<not> (2600::real) < real sr / 2" by simp
    ultimately show ?thesis using d by (auto simp: default_formants_def)
  next
    case c
    have "f < real sr / 2" if "f \<in> set fs" for f
      using c(3) that half_floor[of sr] by fastforce
    with c show ?thesis by (auto simp: default_formants_def)
  qed
qed

theorem formants_sorted_bounded_witness:
  "(5200::nat) < 5201
   \<and> sorted (estimate_formants sample_dsp [0, 1] 5201)
   \<and> list_all (\<lambda>f. 50 < f \<and> f < real 5201 / 2) (estimate_formants sample_dsp [0, 1] 5201)
   \<and> (5200::nat) \<le> 5200
   \<and> estimate_formants sample_dsp [0, 1] 5200 = [700, 1220, 2600]
   \<and> \<not> list_all (\<lambda>f. f < real 5200 / 2) (estimate_formants sample_dsp [0, 1] 5200)"
proof -
  have h: "(5200::nat) < 5201" by simp
  have h2: "(5200::nat) \<le> 5200" by simp
  have e: "estimate_formants sample_dsp [0, 1] 5200 = [700, 1220, 2600]"
    by (simp add: estimate_formants_def default_formants_def)
  from formants_sorted_bounded [of sample_dsp "[0, 1]" 5201] h
  have a: "sorted (estimate_formants sample_dsp [0, 1] 5201)
   \<and> list_all (\<lambda>f. 50 < f \<and> f < real 5201 / 2) (estimate_formants sample_dsp [0, 1] 5201)"
    unfolding list_all_iff by blast
  from formants_sorted_bounded [of sample_dsp "[0, 1]" 5200] h2 e
  have b: "\<not> list_all (\<lambda>f. f < real 5200 / 2) (estimate_formants sample_dsp [0, 1] 5200)"
    unfolding list_all_iff by blast
  from a b e show ?thesis by simp
qed

text \<open>
  Claim C7 as stated fails at a sample rate of 4000 Hz: a waveform of two samples gets
  the default set, and 2600 Hz is not below the Nyquist frequency of 2000 Hz.
\<close>

theorem default_formants_above_nyquist:
  "estimate_formants sample_dsp [0, 1] 4000 = [700, 1220, 2600]
   \<and> (2600::real) \<in> set (estimate_formants sample_dsp [0, 1] 4000)
   \<and> \<not> (2600::real) < real 4000 / 2"
  by (simp add: estimate_formants_def default_formants_def)

subsection \<open>Formant Shifter\<close>

lemma length_scale_band:
  "length freqs = length mag \<Longrightarrow> length (scale_band freqs formants r mag i) = length mag"
  by (simp add: scale_band_def)

lemma nth_scale_band:
  "length freqs = length mag \<Longrightarrow> k < length mag \<Longrightarrow>
   scale_band freqs formants r mag i ! k =
     (if band_mask formants r i (freqs ! k) then map (\<lambda>m. m * band_gain r) (mag ! k) else mag ! k)"
  by (simp add: scale_band_def)

lemma foldl_scale_band:
  assumes "length freqs = length mag"
  shows "length (foldl (scale_band freqs formants r) mag [0 ..< n]) = length mag \<and>
         (\<forall>k < length mag. foldl (scale_band freqs formants r) mag [0 ..< n] ! k =
            map (\<lambda>m. m * band_gain r ^ length (filter (\<lambda>i. band_mask formants r i (freqs ! k)) [0 ..< n]))
                (mag ! k))"
proof (induction n)
  case 0
  show ?case by (simp add: map_idI)
next
  case (Suc n)
  let ?prev = "foldl (scale_band freqs formants r) mag [0 ..< n]"
  from Suc have len: "length ?prev = length mag" by simp
  with assms have len': "length freqs = length ?prev" by simp
  have step: "foldl (scale_band freqs formants r) mag [0 ..< Suc n] =
              scale_band freqs formants r ?prev n" by simp
  show ?case
  proof (intro conjI allI impI)
    show "length (foldl (scale_band freqs formants r) mag [0 ..< Suc n]) = length mag"
      unfolding step using len' len by (simp add: length_scale_band)
  next
    fix k assume k: "k < length mag"
    then have k': "k < length ?prev" using len by simp
    have prevk: "?prev ! k = map (\<lambda>m. m * band_gain r ^ length (filter (\<lambda>i. band_mask formants r i (freqs ! k)) [0 ..< n])) (mag ! k)"
      using Suc k by simp
    show "foldl (scale_band freqs formants r) mag [0 ..< Suc n] ! k =
            map (\<lambda>m. m * band_gain r ^ length (filter (\<lambda>i. band_mask formants r i (freqs ! k)) [0 ..< Suc n]))
                (mag ! k)"
      unfolding step nth_scale_band[OF len' k'] prevk
      by (simp add: mult.assoc)
  qed
qed

lemma filter_bin:
  assumes "length freqs = length magnitude" "k < length magnitude" "t < length (magnitude ! k)"
  shows "\<exists>out. apply_formant_shift_filter magnitude freqs formants r = Inr out \<and>
           length out = length magnitude \<and> length (out ! k) = length (magnitude ! k) \<and>
           out ! k ! t = magnitude ! k ! t * band_gain r ^ band_count formants r (freqs ! k)"
  using assms foldl_scale_band[OF assms(1), of formants r "length formants"]
  by (simp add: apply_formant_shift_filter_def band_count_def)

lemma shifted_bin:
  assumes "librosa_stft lib audio_data = Inr stft"
      and "length (librosa_fft_frequencies lib sr) = length stft"
      and "k < length stft" "t < length (stft ! k)"
  shows "\<exists>out. formant_shifted_stft lib audio_data sr r = Inr out \<and>
           out ! k ! t = rcis (cmod (stft ! k ! t) *
               band_gain r ^ band_count (estimate_formants lib audio_data sr) r (librosa_fft_frequencies lib sr ! k))
               (Arg (stft ! k ! t))"
proof -
  let ?mag = "map (map cmod) stft"
  let ?freqs = "librosa_fft_frequencies lib sr"
  let ?fm = "estimate_formants lib audio_data sr"
  have a: "length ?freqs = length ?mag" "k < length ?mag" "t < length (?mag ! k)"
    using assms by simp_all
  from filter_bin[OF a, of ?fm r] obtain out where
    out: "apply_formant_shift_filter ?mag ?freqs ?fm r = Inr out"
      "length out = length ?mag" "length (out ! k) = length (?mag ! k)"
      "out ! k ! t = ?mag ! k ! t * band_gain r ^ band_count ?fm r (?freqs ! k)"
    by blast
  show ?thesis
    using assms out by (simp add: formant_shifted_stft_def)
qed

lemma rcis_scaled: "rcis (cmod z * c) (Arg z) = of_real c * z"
proof -
  have "rcis (cmod z * c) (Arg z) = of_real c * rcis (cmod z) (Arg z)"
    by (simp add: rcis_def)
  then show ?thesis by (simp add: rcis_cmod_Arg)
qed

lemma Arg_one: "Arg 1 = 0"
  by (rule cis_Arg_unique) simp_all

lemma Arg_of_real_pos: "0 < x \<Longrightarrow> Arg (complex_of_real x) = 0"
  by (rule cis_Arg_unique) (simp_all add: sgn_eq)

lemma Arg_ii_times_pos: "0 < x \<Longrightarrow> Arg (\<i> * complex_of_real x) = pi / 2"
  by (rule cis_Arg_unique) (simp_all add: sgn_eq norm_mult)

lemma band_count_1000: "band_count [700, 1220, 2600] (3/2) 1000 = 1"
  by (simp add: band_count_def band_mask_def upt_rec)

lemma band_count_1200: "band_count [700, 1220, 2600] (3/2) 1200 = 2"
  by (simp add: band_count_def band_mask_def upt_rec)

lemma band_count_600: "band_count [700, 1220, 2600] 1 600 = 1"
  by (simp add: band_count_def band_mask_def upt_rec)

text \<open>
  Claim C6. The filter multiplies the magnitude of a bin once for every formant band that
  contains the bin's frequency, each time by \<open>1 + (r - 1) * 0.5\<close> when \<open>r > 1\<close> and by
  \<open>0.8 + (r - 1) * 0.4\<close> otherwise, so overlapping bands multiply. The spectrogram
  handed to the inverse transform has, in every bin, the magnitude so scaled and the phase
  angle of the input's transform.
\<close>

theorem formant_band_scaling:
  assumes "length freqs = length magnitude" and "k < length magnitude"
      and "t < length (magnitude ! k)"
      and "librosa_stft lib audio_data = Inr stft"
      and "length (librosa_fft_frequencies lib sr) = length stft"
      and "b < length stft" and "u < length (stft ! b)"
  shows "(\<exists>out. apply_formant_shift_filter magnitude freqs formants r = Inr out \<and>
            out ! k ! t =
              magnitude ! k ! t *
              (if r > 1 then 1 + (r - 1) * 0.5 else 0.8 + (r - 1) * 0.4) ^
                band_count formants r (freqs ! k))
       \<and> (\<exists>shifted. formant_shifted_stft lib audio_data sr r = Inr shifted \<and>
            shifted ! b ! u =
              rcis (cmod (stft ! b ! u) *
                    (if r > 1 then 1 + (r - 1) * 0.5 else 0.8 + (r - 1) * 0.4) ^
                      band_count (estimate_formants lib audio_data sr) r
                        (librosa_fft_frequencies lib sr ! b))
                   (Arg (stft ! b ! u)))"
proof -
  have g: "band_gain r = (if r > 1 then 1 + (r - 1) * 0.5 else 0.8 + (r - 1) * 0.4)"
    by (simp add: band_gain_def)
  from filter_bin[OF assms(1-3), of formants r] shifted_bin[OF assms(4-7), of r]
  show ?thesis unfolding g by blast
qed

theorem formant_band_scaling_witness:
  "length [1000::real, 1200] = length [[1::real, 2], [1, 2]]
   \<and> (1::nat) < length [[1::real, 2], [1, 2]]
   \<and> (1::nat) < length ([[1::real, 2], [1, 2]] ! 1)
   \<and> librosa_stft sample_dsp_two_bins [1, 2] = Inr [[1, 2], [\<i> * 1, \<i> * 2]]
   \<and> length (librosa_fft_frequencies sample_dsp_two_bins 44100) = length [[1, 2], [\<i> * 1, \<i> * 2]]
   \<and> (\<exists>out. apply_formant_shift_filter [[1, 2], [1, 2]] [1000, 1200] [700, 1220, 2600] (3/2) = Inr out
          \<and> out ! 0 ! 1 = 5/2 \<and> out ! 1 ! 1 = 25/8)
   \<and> (\<exists>shifted. formant_shifted_stft sample_dsp_two_bins [1, 2] 44100 (3/2) = Inr shifted
          \<and> shifted ! 0 ! 1 = 5/2 \<and> shifted ! 1 ! 1 = \<i> * (25/8))"
proof -
  have h1: "length [1000::real, 1200] = length [[1::real, 2], [1, 2]]" by simp
  have h2: "(1::nat) < length [[1::real, 2], [1, 2]]" by simp
  have h2': "(0::nat) < length [[1::real, 2], [1, 2]]" by simp
  have h3: "(1::nat) < length ([[1::real, 2], [1, 2]] ! 1)" by simp
  have h3': "(1::nat) < length ([[1::real, 2], [1, 2]] ! 0)" by simp
  have h4: "librosa_stft sample_dsp_two_bins [1, 2] = Inr [[1, 2], [\<i> * 1, \<i> * 2]]"
    by (simp add: sample_dsp_two_bins_def sample_dsp_def)
  have h5: "length (librosa_fft_frequencies sample_dsp_two_bins 44100) = length [[1, 2], [\<i> * 1, \<i> * 2]]"
    by (simp add: sample_dsp_two_bins_def sample_dsp_def)
  have h6: "(1::nat) < length [[1, 2], [\<i> * 1, \<i> * 2]]" by simp
  have h6': "(0::nat) < length [[1, 2], [\<i> * 1, \<i> * 2]]" by simp
  have h7: "(1::nat) < length ([[1, 2], [\<i> * 1, \<i> * 2]] ! 1)" by simp
  have h7': "(1::nat) < length ([[1, 2], [\<i> * 1, \<i> * 2]] ! 0)" by simp
  have e: "estimate_formants sample_dsp_two_bins [1, 2] 44100 = [700, 1220, 2600]"
    by (simp add: estimate_formants_def default_formants_def)
  have f: "librosa_fft_frequencies sample_dsp_two_bins 44100 = [1000, 1200]"
    by (simp add: sample_dsp_two_bins_def sample_dsp_def)
  have a2: "Arg (\<i> * 2) = pi / 2" using Arg_ii_times_pos[of 2] by simp
  have a1: "Arg 2 = 0" using Arg_of_real_pos[of 2] by simp
  note overlap = formant_band_scaling [OF h1 h2 h3 h4 h5 h6 h7, of "[700, 1220, 2600]" "3/2"]
  note single = formant_band_scaling [OF h1 h2' h3' h4 h5 h6' h7', of "[700, 1220, 2600]" "3/2"]
  from overlap single
  have A: "\<exists>out. apply_formant_shift_filter [[1, 2], [1, 2]] [1000, 1200] [700, 1220, 2600] (3/2) = Inr out
          \<and> out ! 0 ! 1 = 5/2 \<and> out ! 1 ! 1 = 25/8"
    by (auto simp: band_count_1000 band_count_1200 power2_eq_square)
  from overlap single
  have B: "\<exists>shifted. formant_shifted_stft sample_dsp_two_bins [1, 2] 44100 (3/2) = Inr shifted
          \<and> shifted ! 0 ! 1 = 5/2 \<and> shifted ! 1 ! 1 = \<i> * (25/8)"
    by (auto simp: e f band_count_1000 band_count_1200 a1 a2 norm_mult power2_eq_square rcis_def cis_pi_half)
  from A B h1 h2 h3 h4 h5 show ?thesis by blast
qed

text \<open>
  Claim C2 as stated fails. At ratio 1.0 the filter takes the \<open>else\<close> branch and
  multiplies a 600 Hz bin of magnitude 1 by 0.8; with a transform pair that are exact
  inverses of each other, the waveform \<open>[1]\<close> comes back as \<open>[0.8]\<close>.
\<close>

theorem formant_shift_not_identity_at_one:
  "apply_formant_shift_filter [[1]] [600] [700, 1220, 2600] 1 = Inr [[4/5]]
   \<and> apply_formant_shift sample_dsp [1] 44100 1 = Inr [4/5]"
proof -
  have bm: "band_mask [700, 1220, 2600] 1 0 600" "\<not> band_mask [700, 1220, 2600] 1 (Suc 0) 600"
     "\<not> band_mask [700, 1220, 2600] 1 (Suc (Suc 0)) 600"
    by (simp_all add: band_mask_def)
  have f: "apply_formant_shift_filter [[1]] [600] [700, 1220, 2600] 1 = Inr [[4/5]]"
    by (simp add: apply_formant_shift_filter_def upt_rec scale_band_def bm band_gain_def)
  have e: "estimate_formants sample_dsp [1] 44100 = [700, 1220, 2600]"
    by (simp add: estimate_formants_def default_formants_def)
  have s: "librosa_stft sample_dsp [1] = Inr [[1]]"
    "librosa_fft_frequencies sample_dsp 44100 = [600]"
    by (simp_all add: sample_dsp_def)
  have "formant_shifted_stft sample_dsp [1] 44100 1 = Inr [[4/5]]"
    by (simp add: formant_shifted_stft_def e s f Arg_one)
  then have "apply_formant_shift sample_dsp [1] 44100 1 = Inr [4/5]"
    by (simp add: apply_formant_shift_def) (simp add: sample_dsp_def)
  with f show ?thesis by simp
qed

text \<open>
  Claim C2, as the code has it. At ratio 1.0 the Formant Shifter is not a near-identity:
  the waveform it returns is the inverse transform of a spectrogram in which every bin
  has the phase angle of the input's transform and the input's magnitude multiplied by
  \<open>0.8\<close> to the power of the number of formant bands that contain the bin's frequency.
  Bins outside every band are kept, bins inside a band are attenuated.
\<close>

theorem formant_shift_at_one:
  assumes "librosa_stft lib audio_data = Inr stft"
      and "length (librosa_fft_frequencies lib sr) = length stft"
      and "k < length stft" and "t < length (stft ! k)"
  shows "\<exists>shifted. formant_shifted_stft lib audio_data sr 1 = Inr shifted
           \<and> apply_formant_shift lib audio_data sr 1 = librosa_istft lib shifted
           \<and> shifted ! k ! t =
                rcis (cmod (stft ! k ! t) *
                      (4/5) ^ band_count (estimate_formants lib audio_data sr) 1
                                (librosa_fft_frequencies lib sr ! k))
                     (Arg (stft ! k ! t))
           \<and> shifted ! k ! t =
                complex_of_real ((4/5) ^ band_count (estimate_formants lib audio_data sr) 1
                                          (librosa_fft_frequencies lib sr ! k)) * stft ! k ! t"
proof -
  have g: "band_gain 1 = 4/5" by (simp add: band_gain_def)
  from shifted_bin[OF assms, of 1] obtain shifted where
    s: "formant_shifted_stft lib audio_data sr 1 = Inr shifted"
       "shifted ! k ! t =
          rcis (cmod (stft ! k ! t) *
                (4/5) ^ band_count (estimate_formants lib audio_data sr) 1
                          (librosa_fft_frequencies lib sr ! k))
               (Arg (stft ! k ! t))"
    unfolding g by blast
  have "apply_formant_shift lib audio_data sr 1 = librosa_istft lib shifted"
    by (simp add: apply_formant_shift_def s(1))
  with s show ?thesis unfolding rcis_scaled by auto
qed

theorem formant_shift_at_one_witness:
  "librosa_stft sample_dsp [1] = Inr [[1]]
   \<and> length (librosa_fft_frequencies sample_dsp 44100) = length [[1::complex]]
   \<and> (0::nat) < length [[1::complex]] \<and> (0::nat) < length ([[1::complex]] ! 0)
   \<and> band_count (estimate_formants sample_dsp [1] 44100) 1 600 = 1
   \<and> (\<exists>shifted. formant_shifted_stft sample_dsp [1] 44100 1 = Inr shifted
         \<and> apply_formant_shift sample_dsp [1] 44100 1 = librosa_istft sample_dsp shifted
         \<and> shifted ! 0 ! 0 = 4/5)"
proof -
  have h1: "librosa_stft sample_dsp [1] = Inr [[1]]" by (simp add: sample_dsp_def)
  have h2: "length (librosa_fft_frequencies sample_dsp 44100) = length [[1::complex]]"
    by (simp add: sample_dsp_def)
  have h3: "(0::nat) < length [[1::complex]]" by simp
  have h4: "(0::nat) < length ([[1::complex]] ! 0)" by simp
  have f: "librosa_fft_frequencies sample_dsp 44100 ! 0 = 600" by (simp add: sample_dsp_def)
  have e: "estimate_formants sample_dsp [1] 44100 = [700, 1220, 2600]"
    by (simp add: estimate_formants_def default_formants_def)
  from formant_shift_at_one [OF h1 h2 h3 h4]
  have "\<exists>shifted. formant_shifted_stft sample_dsp [1] 44100 1 = Inr shifted
         \<and> apply_formant_shift sample_dsp [1] 44100 1 = librosa_istft sample_dsp shifted
         \<and> shifted ! 0 ! 0 = 4/5"
    by (auto simp: f e band_count_600)
  with h1 h2 h3 h4 show ?thesis by (simp add: e band_count_600)
qed

subsection \<open>Pitch Extractor\<close>

lemma argmax_from_spec:
  assumes "length pre = i" "b < i" "pre ! b = bv"
      and "\<forall>j < i. pre ! j \<le> bv" "\<forall>j < b. pre ! j < bv"
  shows "argmax_from b bv i xs < length (pre @ xs) \<and>
         (\<forall>j < length (pre @ xs). (pre @ xs) ! j \<le> (pre @ xs) ! argmax_from b bv i xs) \<and>
         (\<forall>j < argmax_from b bv i xs. (pre @ xs) ! j < (pre @ xs) ! argmax_from b bv i xs)"
  using assms
proof (induction xs arbitrary: pre i b bv)
  case Nil
  then show ?case by auto
next
  case (Cons x xs)
  let ?pre = "pre @ [x]"
  show ?case
  proof (cases "x > bv")
    case True
    have "argmax_from i x (Suc i) xs < length (?pre @ xs) \<and>
         (\<forall>j < length (?pre @ xs). (?pre @ xs) ! j \<le> (?pre @ xs) ! argmax_from i x (Suc i) xs) \<and>
         (\<forall>j < argmax_from i x (Suc i) xs. (?pre @ xs) ! j < (?pre @ xs) ! argmax_from i x (Suc i) xs)"
    proof (rule Cons.IH)
      show "length ?pre = Suc i" using Cons.prems by simp
      show "i < Suc i" by simp
      show "?pre ! i = x" using Cons.prems by (simp add: nth_append)
      show "\<forall>j<Suc i. ?pre ! j \<le> x"
        using Cons.prems True by (auto simp: nth_append less_Suc_eq intro: order.trans less_imp_le)
      show "\<forall>j<i. ?pre ! j < x"
        using Cons.prems True by (auto simp: nth_append intro: le_less_trans)
    qed
    with True show ?thesis by simp
  next
    case False
    have "argmax_from b bv (Suc i) xs < length (?pre @ xs) \<and>
         (\<forall>j < length (?pre @ xs). (?pre @ xs) ! j \<le> (?pre @ xs) ! argmax_from b bv (Suc i) xs) \<and>
         (\<forall>j < argmax_from b bv (Suc i) xs. (?pre @ xs) ! j < (?pre @ xs) ! argmax_from b bv (Suc i) xs)"
    proof (rule Cons.IH)
      show "length ?pre = Suc i" using Cons.prems by simp
      show "b < Suc i" using Cons.prems by simp
      show "?pre ! b = bv" using Cons.prems by (simp add: nth_append)
      show "\<forall>j<Suc i. ?pre ! j \<le> bv"
        using Cons.prems False by (auto simp: nth_append less_Suc_eq)
      show "\<forall>j<b. ?pre ! j < bv"
        using Cons.prems by (auto simp: nth_append)
    qed
    with False show ?thesis by simp
  qed
qed

lemma np_argmax_spec:
  assumes "np_argmax xs = Inr i"
  shows "i < length xs \<and> (\<forall>j < length xs. xs ! j \<le> xs ! i) \<and> (\<forall>j < i. xs ! j < xs ! i)"
proof (cases xs)
  case Nil
  with assms show ?thesis by (simp add: np_argmax_def)
next
  case (Cons x rest)
  with assms have i: "i = argmax_from 0 x 1 rest" by (simp add: np_argmax_def)
  have "argmax_from 0 x 1 rest < length ([x] @ rest) \<and>
         (\<forall>j < length ([x] @ rest). ([x] @ rest) ! j \<le> ([x] @ rest) ! argmax_from 0 x 1 rest) \<and>
         (\<forall>j < argmax_from 0 x 1 rest. ([x] @ rest) ! j < ([x] @ rest) ! argmax_from 0 x 1 rest)"
    by (rule argmax_from_spec) auto
  with i Cons show ?thesis by simp
qed

lemma np_argmax_Max:
  assumes "np_argmax xs = Inr i"
  shows "xs ! i = Max (set xs)"
proof -
  from np_argmax_spec[OF assms] have i: "i < length xs" and le: "\<forall>j < length xs. xs ! j \<le> xs ! i"
    by auto
  show ?thesis
  proof (rule sym, rule Max_eqI)
    show "finite (set xs)" by simp
    show "xs ! i \<in> set xs" using i by simp
    fix y assume "y \<in> set xs"
    then obtain j where "j < length xs" "xs ! j = y" by (auto simp: in_set_conv_nth)
    with le show "y \<le> xs ! i" by auto
  qed
qed

lemma main_pitch_track_spec:
  assumes "main_pitch_track pitches magnitudes = Inr (pv, mv)"
  shows "length pv = length pitches \<and> length mv = length pitches \<and>
         (\<forall>t < length pitches. \<exists>index. np_argmax (pitches ! t) = Inr index \<and>
              pv ! t = pitches ! t ! index \<and> mv ! t = magnitudes ! t ! index)"
  using assms
proof (induction pitches arbitrary: magnitudes pv mv)
  case Nil
  then show ?case by simp
next
  case (Cons p pitches)
  from Cons.prems obtain index m ms pv' mv' where
    a: "np_argmax p = Inr index" and m: "magnitudes = m # ms"
    and rest: "main_pitch_track pitches ms = Inr (pv', mv')"
    and pv: "pv = p ! index # pv'" and mv: "mv = m ! index # mv'"
    by (auto split: sum.splits list.splits if_splits)
  from Cons.IH[OF rest] have ih: "length pv' = length pitches" "length mv' = length pitches"
    "\<forall>t < length pitches. \<exists>index. np_argmax (pitches ! t) = Inr index \<and>
              pv' ! t = pitches ! t ! index \<and> mv' ! t = ms ! t ! index" by auto
  show ?case
  proof (intro conjI allI impI)
    fix t assume "t < length (p # pitches)"
    then show "\<exists>index. np_argmax ((p # pitches) ! t) = Inr index \<and>
              pv ! t = (p # pitches) ! t ! index \<and> mv ! t = magnitudes ! t ! index"
      using a m pv mv ih(3) by (cases t) auto
  qed (use ih pv mv in auto)
qed


text \<open>
  What the loop of the three extractors computes from the salience map it is given: per
  frame, the pair stored at the first bin whose pitch value is the largest of the frame.
\<close>

lemma extractors_record_largest_pitch:
  assumes "th = 0.1 \<and> extract = extract_pitch_rmvpe
         \<or> th = 0.2 \<and> extract = extract_pitch_harvest
         \<or> th = 0.3 \<and> extract = extract_pitch_pm"
      and "librosa_piptrack lib audio_data sr th = Inr (pitches, magnitudes)"
      and "extract lib audio_data sr = Inr (pitch_values, magnitude_values)"
  shows "length pitch_values = length pitches \<and> length magnitude_values = length pitches \<and>
         (\<forall>t < length pitches. \<exists>index < length (pitches ! t).
             (\<forall>j < length (pitches ! t). pitches ! t ! j \<le> pitches ! t ! index) \<and>
             (\<forall>j < index. pitches ! t ! j < pitches ! t ! index) \<and>
             pitch_values ! t = pitches ! t ! index \<and>
             magnitude_values ! t = magnitudes ! t ! index)"
proof -
  have run: "main_pitch_track pitches magnitudes = Inr (pitch_values, magnitude_values)"
    using assms(1)
  proof (elim disjE conjE)
    assume a: "th = 0.1" "extract = extract_pitch_rmvpe"
    from assms(2,3) show ?thesis unfolding a extract_pitch_rmvpe_def by simp
  next
    assume a: "th = 0.2" "extract = extract_pitch_harvest"
    from assms(2,3) show ?thesis unfolding a extract_pitch_harvest_def by simp
  next
    assume a: "th = 0.3" "extract = extract_pitch_pm"
    from assms(2,3) show ?thesis unfolding a extract_pitch_pm_def by simp
  qed
  note sel = main_pitch_track_spec[OF run]
  show ?thesis
  proof (intro conjI allI impI)
    fix t assume "t < length pitches"
    with sel obtain index where i: "np_argmax (pitches ! t) = Inr index"
       "pitch_values ! t = pitches ! t ! index" "magnitude_values ! t = magnitudes ! t ! index"
      by blast
    from np_argmax_spec[OF i(1)] i(2,3)
    show "\<exists>index < length (pitches ! t).
             (\<forall>j < length (pitches ! t). pitches ! t ! j \<le> pitches ! t ! index) \<and>
             (\<forall>j < index. pitches ! t ! j < pitches ! t ! index) \<and>
             pitch_values ! t = pitches ! t ! index \<and>
             magnitude_values ! t = magnitudes ! t ! index"
      by blast
  qed (use sel in auto)
qed

subsection \<open>Noise removal of the Target Preprocessor\<close>








section \<open>Properties of the separator\<close>

subsection \<open>What the file operations and the three states do to the files\<close>

lemma copy2_cases:
  assumes "shutil_copy2 env src dst f = (r, f')"
  shows "(\<exists>e. r = Some e \<and> is_os_error e \<and> f' = f) \<or>
         (\<exists>content. r = None \<and> src \<noteq> dst \<and> f src = Some content \<and> f' = f(dst \<mapsto> content))"
  using assms by (auto simp: shutil_copy2_def is_os_error_def split: option.splits if_splits)

lemma move_cases:
  assumes "shutil_move env src dst f = (r, f')"
  shows "(\<exists>e. r = Some e \<and> f' = f) \<or> (r = None \<and> src = dst \<and> f' = f) \<or>
         (\<exists>content. r = None \<and> src \<noteq> dst \<and> f src = Some content \<and>
                    f' = (f(src := None))(dst \<mapsto> content))"
  using assms by (auto simp: shutil_move_def split: option.splits if_splits)

lemma sf_write_cases:
  assumes "sf_write env p d sr f = (r, f')"
  shows "(\<exists>e. r = Some e \<and> f' = f) \<or>
         (\<exists>content. r = None \<and> wav_encode env d sr = Inr content \<and> f' = f(p \<mapsto> content))"
  using assms by (auto simp: sf_write_def split: sum.splits if_splits)

lemma place_keeps:
  assumes "(case cand of Some c \<Rightarrow> shutil_move env c dst f
            | None \<Rightarrow> shutil_copy2 env inp dst f) = (r, f')"
      and "dst = inp \<or> f inp = None \<or> f inp = f0 inp"
  shows "dst = inp \<or> f' inp = None \<or> f' inp = f0 inp"
proof (cases cand)
  case None
  with assms(1) have "shutil_copy2 env inp dst f = (r, f')" by simp
  from copy2_cases[OF this] assms(2) show ?thesis by auto
next
  case (Some c)
  with assms(1) have "shutil_move env c dst f = (r, f')" by simp
  from move_cases[OF this] assms(2) show ?thesis by auto
qed

lemma primary_keeps:
  assumes "separator_keeps env inp vout files"
      and "primary_separation env inp vout iout files = (r, files1)"
  shows "vout = inp \<or> iout = inp \<or> files1 inp = None \<or> files1 inp = files inp"
proof -
  let ?sep = "separator_separate env inp (os_path_dirname env vout) (os_path_stem env inp) files"
  have keep: "snd ?sep inp = files inp"
    using assms(1) by (simp add: separator_keeps_def)
  show ?thesis
  proof (cases "import_torch env = None \<and> torch_set_default_device env = None \<and>
                import_audio_separator env = None \<and>
                os_makedirs env (os_path_dirname env vout) = None \<and>
                os_makedirs env (os_path_dirname env iout) = None \<and> separator_new env = None")
    case False
    with assms(2) have "files1 = files"
      by (auto simp: primary_separation_def split: option.splits)
    then show ?thesis by simp
  next
    case True
    obtain sr fs1 where sep: "?sep = (sr, fs1)" by (cases ?sep)
    with keep have k1: "fs1 inp = files inp" by simp
    show ?thesis
    proof (cases sr)
      case (Some e)
      with True sep assms(2) have "files1 = fs1" by (simp add: primary_separation_def)
      with k1 show ?thesis by simp
    next
      case None
      let ?vr = "find (os_path_exists fs1)
                   (map (os_path_join env (os_path_dirname env vout)) (vocal_patterns (os_path_stem env inp)))"
      let ?ir = "find (os_path_exists fs1)
                   (map (os_path_join env (os_path_dirname env vout)) (instrumental_patterns (os_path_stem env inp)))"
      obtain r2 fs2 where p1: "(case ?vr of Some c \<Rightarrow> shutil_move env c vout fs1
            | None \<Rightarrow> shutil_copy2 env inp vout fs1) = (r2, fs2)" by fastforce
      from place_keeps[OF p1, of files] k1
      have k2: "vout = inp \<or> fs2 inp = None \<or> fs2 inp = files inp" by simp
      show ?thesis
      proof (cases r2)
        case (Some e)
        with True sep None p1 assms(2) have "files1 = fs2"
          by (simp add: primary_separation_def Let_def)
        with k2 show ?thesis by auto
      next
        case r2None: None
        obtain r3 fs3 where p2: "(case ?ir of Some c \<Rightarrow> shutil_move env c iout fs2
            | None \<Rightarrow> shutil_copy2 env inp iout fs2) = (r3, fs3)" by fastforce
        have "files1 = fs3"
          using True sep None p1 r2None p2 assms(2)
          by (cases r3) (simp_all add: primary_separation_def Let_def)
        moreover have "iout = inp \<or> fs3 inp = None \<or> fs3 inp = files inp" if "vout \<noteq> inp"
          using place_keeps[OF p2, of files] k2 that by simp
        ultimately show ?thesis by auto
      qed
    qed
  qed
qed

lemma copy_original_cases:
  assumes "copy_original env inp vout iout f = (r, f')"
  shows "(\<exists>e. r = Inl e \<and> is_os_error e) \<or>
         (\<exists>content. r = Inr (vout, iout) \<and> vout \<noteq> inp \<and> iout \<noteq> inp \<and> f inp = Some content \<and>
             f' vout = Some content \<and> f' iout = Some content)"
proof -
  obtain r1 f1 where c1: "shutil_copy2 env inp vout f = (r1, f1)" by fastforce
  obtain r2 f2 where c2: "shutil_copy2 env inp iout f1 = (r2, f2)" by fastforce
  from copy2_cases[OF c1] show ?thesis
  proof (elim disjE exE conjE)
    fix e assume "r1 = Some e" "is_os_error e" "f1 = f"
    with assms c1 show ?thesis by (auto simp: copy_original_def)
  next
    fix content assume a: "r1 = None" "inp \<noteq> vout" "f inp = Some content" "f1 = f(vout \<mapsto> content)"
    from copy2_cases[OF c2] show ?thesis
    proof (elim disjE exE conjE)
      fix e assume "r2 = Some e" "is_os_error e" "f2 = f1"
      with assms c1 c2 a show ?thesis by (auto simp: copy_original_def)
    next
      fix content' assume b: "r2 = None" "inp \<noteq> iout" "f1 inp = Some content'" "f2 = f1(iout \<mapsto> content')"
      with a have "content' = content" by simp
      with assms c1 c2 a b show ?thesis by (auto simp: copy_original_def)
    qed
  qed
qed

lemma copy2_keeps_src:
  assumes "shutil_copy2 env src dst f = (r, f')"
  shows "f' src = f src"
  using copy2_cases[OF assms] by auto

lemma copy_original_keeps:
  assumes "copy_original env inp vout iout f = (r, f')"
  shows "f' inp = f inp"
proof -
  obtain r1 f1 where c1: "shutil_copy2 env inp vout f = (r1, f1)" by fastforce
  obtain r2 f2 where c2: "shutil_copy2 env inp iout f1 = (r2, f2)" by fastforce
  have "f' = f1 \<or> f' = f2"
    using assms c1 c2 by (cases r1; cases r2) (simp_all add: copy_original_def)
  with copy2_keeps_src[OF c1] copy2_keeps_src[OF c2] show ?thesis by auto
qed

lemma write_pair_cases:
  assumes "(case sf_write env vout a sr f of
              (Some e, f1) \<Rightarrow> (Inl e, f1)
            | (None, f1) \<Rightarrow>
                (case sf_write env iout b sr f1 of
                   (Some e, f2) \<Rightarrow> (Inl e, f2)
                 | (None, f2) \<Rightarrow> (Inr (vout, iout), f2))) = (r, f')"
  shows "(f' inp = f inp \<or> vout = inp \<or> iout = inp) \<and>
         (\<forall>res. r = Inr res \<longrightarrow> res = (vout, iout) \<and>
             (\<exists>y1 y2 sr c1 c2. wav_encode env y1 sr = Inr c1 \<and> wav_encode env y2 sr = Inr c2 \<and>
                 f' vout = Some (if vout = iout then c2 else c1) \<and> f' iout = Some c2))"
proof -
  obtain r1 f1 where w1: "sf_write env vout a sr f = (r1, f1)" by fastforce
  obtain r2 f2 where w2: "sf_write env iout b sr f1 = (r2, f2)" by fastforce
  have run: "(r, f') = (case r1 of Some e \<Rightarrow> (Inl e, f1)
               | None \<Rightarrow> (case r2 of Some e \<Rightarrow> (Inl e, f2)
                          | None \<Rightarrow> (Inr (vout, iout), f2)))"
    using assms w1 w2 by (simp split: option.splits)
  from sf_write_cases[OF w1] show ?thesis
  proof (elim disjE exE conjE)
    fix e assume "r1 = Some e" "f1 = f"
    with run show ?thesis by auto
  next
    fix c1 assume a: "r1 = None" "wav_encode env a sr = Inr c1" "f1 = f(vout \<mapsto> c1)"
    from sf_write_cases[OF w2] show ?thesis
    proof (elim disjE exE conjE)
      fix e assume "r2 = Some e" "f2 = f1"
      with run a show ?thesis by auto
    next
      fix c2 assume b: "r2 = None" "wav_encode env b sr = Inr c2" "f2 = f1(iout \<mapsto> c2)"
      have out: "f' vout = Some (if vout = iout then c2 else c1)" "f' iout = Some c2"
        using run a b by auto
      have "f' inp = f inp \<or> vout = inp \<or> iout = inp"
        using run a b by auto
      moreover have "r = Inr (vout, iout)" using run a b by simp
      ultimately show ?thesis using a(2) b(2) out by blast
    qed
  qed
qed

lemma simple_body_cases:
  assumes "simple_vocal_separation_body env inp vout iout f = (r, f')"
  shows "(f' inp = f inp \<or> vout = inp \<or> iout = inp) \<and>
         (\<forall>res. r = Inr res \<longrightarrow> res = (vout, iout) \<and>
            ((\<exists>content. vout \<noteq> inp \<and> iout \<noteq> inp \<and> f inp = Some content \<and>
                 f' vout = Some content \<and> f' iout = Some content) \<or>
             (\<exists>y1 y2 sr c1 c2. wav_encode env y1 sr = Inr c1 \<and> wav_encode env y2 sr = Inr c2 \<and>
                 f' vout = Some (if vout = iout then c2 else c1) \<and> f' iout = Some c2)))"
proof (cases "librosa_load env inp f")
  case (Inl e)
  with assms show ?thesis by (auto simp: simple_vocal_separation_body_def)
next
  case (Inr loaded)
  obtain y0 sr where l: "loaded = (y0, sr)" by (cases loaded)
  define y1 where "y1 = (case y0 of Mono samples \<Rightarrow> [samples, samples] | Channels chans \<Rightarrow> chans)"
  define y where "y = (if length y1 = 1 then [y1 ! 0, y1 ! 0] else y1)"
  show ?thesis
  proof (cases "length y \<ge> 2")
    case False
    with assms Inr l have c: "copy_original env inp vout iout f = (r, f')"
      unfolding simple_vocal_separation_body_def copy_original_def Let_def y_def y1_def
      by simp
    from copy_original_cases[OF c] copy_original_keeps[OF c]
    show ?thesis by auto
  next
    case True
    define vc where "vc = map2 (\<lambda>l r. (l + r) / 2) (y ! 0) (y ! 1)"
    define inst where "inst = map2 (\<lambda>l r. l - r) (y ! 0) (y ! 1)"
    show ?thesis
    proof (cases "librosa_preemphasis env vc")
      case (Inl e)
      with assms Inr l True show ?thesis
        unfolding simple_vocal_separation_body_def Let_def y_def y1_def vc_def
        by auto
    next
      case emph: (Inr emphasized)
      define vocal where "vocal = (if pedalboard_present env then
                      (case pedalboard_board env emphasized sr of
                         Inl board_error \<Rightarrow> emphasized | Inr processed \<Rightarrow> processed)
                    else emphasized)"
      have "(case sf_write env vout vocal sr f of
              (Some e, f1) \<Rightarrow> (Inl e, f1)
            | (None, f1) \<Rightarrow>
                (case sf_write env iout inst sr f1 of
                   (Some e, f2) \<Rightarrow> (Inl e, f2)
                 | (None, f2) \<Rightarrow> (Inr (vout, iout), f2))) = (r, f')"
        using assms Inr l True emph
        unfolding simple_vocal_separation_body_def Let_def y_def y1_def vc_def inst_def vocal_def
        by simp
      from write_pair_cases[OF this, of inp] show ?thesis by blast
    qed
  qed
qed

lemma simple_cases:
  assumes "simple_vocal_separation env inp vout iout f = (r, f')"
  shows "(f' inp = f inp \<or> vout = inp \<or> iout = inp) \<and>
         (\<forall>res. r = Inr res \<longrightarrow> res = (vout, iout) \<and>
            ((\<exists>content. vout \<noteq> inp \<and> iout \<noteq> inp \<and> f inp = Some content \<and>
                 f' vout = Some content \<and> f' iout = Some content) \<or>
             (\<exists>y1 y2 sr c1 c2. wav_encode env y1 sr = Inr c1 \<and> wav_encode env y2 sr = Inr c2 \<and>
                 f' vout = Some (if vout = iout then c2 else c1) \<and> f' iout = Some c2)))"
proof (cases "librosa_present env")
  case False
  with assms show ?thesis by (auto simp: simple_vocal_separation_def)
next
  case True
  obtain rb fb where b: "simple_vocal_separation_body env inp vout iout f = (rb, fb)" by fastforce
  with assms True have "f' = fb" "\<forall>res. r = Inr res \<longrightarrow> rb = Inr res"
    by (auto simp: simple_vocal_separation_def split: sum.splits)
  with simple_body_cases[OF b] show ?thesis by blast
qed

subsection \<open>Runs of the sample environments\<close>

lemma sample_primary:
  "primary_separation sample_env ''mix.wav'' ''out/vocal.wav'' ''out/inst.wav'' sample_files
     = (Inl OSError, sample_files)"
  by (simp add: primary_separation_def sample_env_def)

lemma sample_simple:
  "simple_vocal_separation sample_env ''mix.wav'' ''out/vocal.wav'' ''out/inst.wav'' sample_files
     = (Inl OtherException, sample_files)"
  by (simp add: simple_vocal_separation_def simple_vocal_separation_body_def librosa_load_def
        sample_env_def sample_files_def)

lemma sample_copy:
  "copy_original sample_env ''mix.wav'' ''out/vocal.wav'' ''out/inst.wav'' sample_files
     = (Inr (''out/vocal.wav'', ''out/inst.wav''),
        sample_files(''out/vocal.wav'' \<mapsto> [1, 2, 3], ''out/inst.wav'' \<mapsto> [1, 2, 3]))"
  by (simp add: copy_original_def shutil_copy2_def sample_env_def sample_files_def)

lemma sample_exists: "os_path_exists sample_files ''mix.wav''"
  by (simp add: os_path_exists_def sample_files_def)

lemma sample_run:
  "separate_vocals_instrumental sample_env ''mix.wav'' ''out/vocal.wav'' ''out/inst.wav'' sample_files
     = (Inr (''out/vocal.wav'', ''out/inst.wav''),
        sample_files(''out/vocal.wav'' \<mapsto> [1, 2, 3], ''out/inst.wav'' \<mapsto> [1, 2, 3]))"
  by (simp add: separate_vocals_instrumental_def sample_primary sample_simple sample_copy
        sample_exists)

lemma sample_keeps: "separator_keeps sample_env ''mix.wav'' ''out/vocal.wav'' sample_files"
  by (simp add: separator_keeps_def sample_env_def)

lemma sample_encoder: "encoder_nonempty sample_env"
  by (simp add: encoder_nonempty_def sample_env_def)

lemma no_torch_primary:
  "primary_separation sample_env_no_torch ''mix.wav'' ''out/vocal.wav'' ''out/inst.wav'' sample_files
     = (Inl ImportError, sample_files)"
  by (simp add: primary_separation_def sample_env_no_torch_def sample_env_def)

lemma no_torch_run:
  "separate_vocals_instrumental sample_env_no_torch ''mix.wav'' ''out/vocal.wav'' ''out/inst.wav''
     sample_files = (Inl ImportError, sample_files)"
  by (simp add: separate_vocals_instrumental_def no_torch_primary sample_exists)

subsection \<open>The fallback chain\<close>

text \<open>
  Claim C1 as stated fails. When torch is not installed, state A raises
  \<^verbatim>\<open>ImportError\<close>, the handler \<^verbatim>\<open>except ImportError\<close> raises it again, no fallback
  runs and no stem file is written; \<^verbatim>\<open>ImportError\<close> is not a file-system error. And
  when states A and B fail on an empty input file, state C returns two empty copies.
\<close>

theorem import_error_no_fallback:
  "fst (separate_vocals_instrumental sample_env_no_torch ''mix.wav'' ''out/vocal.wav''
          ''out/inst.wav'' sample_files) = Inl ImportError
   \<and> \<not> is_os_error ImportError
   \<and> snd (separate_vocals_instrumental sample_env_no_torch ''mix.wav'' ''out/vocal.wav''
          ''out/inst.wav'' sample_files) ''out/vocal.wav'' = None
   \<and> fst (separate_vocals_instrumental sample_env ''mix.wav'' ''out/vocal.wav''
          ''out/inst.wav'' empty_mix_files) = Inr (''out/vocal.wav'', ''out/inst.wav'')
   \<and> snd (separate_vocals_instrumental sample_env ''mix.wav'' ''out/vocal.wav''
          ''out/inst.wav'' empty_mix_files) ''out/vocal.wav'' = Some []"
proof -
  have a: "primary_separation sample_env_no_torch ''mix.wav'' ''out/vocal.wav'' ''out/inst.wav''
             sample_files = (Inl ImportError, sample_files)"
    by (simp add: primary_separation_def sample_env_no_torch_def sample_env_def)
  have b: "separate_vocals_instrumental sample_env_no_torch ''mix.wav'' ''out/vocal.wav''
             ''out/inst.wav'' sample_files = (Inl ImportError, sample_files)"
    by (simp add: separate_vocals_instrumental_def a os_path_exists_def) (simp add: sample_files_def)
  have c: "primary_separation sample_env ''mix.wav'' ''out/vocal.wav'' ''out/inst.wav''
             empty_mix_files = (Inl OSError, empty_mix_files)"
    by (simp add: primary_separation_def sample_env_def)
  have d: "simple_vocal_separation sample_env ''mix.wav'' ''out/vocal.wav'' ''out/inst.wav''
             empty_mix_files = (Inl OtherException, empty_mix_files)"
    by (simp add: simple_vocal_separation_def simple_vocal_separation_body_def librosa_load_def
          sample_env_def empty_mix_files_def)
  have e: "copy_original sample_env ''mix.wav'' ''out/vocal.wav'' ''out/inst.wav'' empty_mix_files
           = (Inr (''out/vocal.wav'', ''out/inst.wav''),
              empty_mix_files(''out/vocal.wav'' \<mapsto> [], ''out/inst.wav'' \<mapsto> []))"
    by (simp add: copy_original_def shutil_copy2_def sample_env_def empty_mix_files_def)
  have f: "separate_vocals_instrumental sample_env ''mix.wav'' ''out/vocal.wav''
             ''out/inst.wav'' empty_mix_files
           = (Inr (''out/vocal.wav'', ''out/inst.wav''),
              empty_mix_files(''out/vocal.wav'' \<mapsto> [], ''out/inst.wav'' \<mapsto> []))"
    by (simp add: separate_vocals_instrumental_def c d e os_path_exists_def)
       (simp add: empty_mix_files_def)
  show ?thesis
    unfolding b f by (simp add: is_os_error_def sample_files_def)
qed

text \<open>
  Claim C1, as the code has it. Let state A fail on an existing input file. If it fails
  with \<^verbatim>\<open>ImportError\<close> (torch or audio-separator cannot be imported), the caller gets
  \<^verbatim>\<open>ImportError\<close> and no fallback runs. If it fails with any other exception, state B
  runs, and state C after it when B fails: on return the two paths are the requested ones
  and both files exist, and the only exceptions are file-system errors of the copies in
  state C. The two files are not empty provided that the input file is not empty, the
  encoder never writes an empty file and the separation model left the input file as it
  was.
\<close>

theorem fallback_chain:
  assumes "files inp = Some content"
      and "primary_separation env inp vout iout files = (Inl e, files1)"
      and "separate_vocals_instrumental env inp vout iout files = (result, files')"
  shows "(e = ImportError \<longrightarrow> result = Inl ImportError \<and> files' = files1)
       \<and> (e \<noteq> ImportError \<longrightarrow>
            (result, files') =
              (case simple_vocal_separation env inp vout iout files1 of
                 (Inr r, files2) \<Rightarrow> (Inr r, files2)
               | (Inl fallback_error, files2) \<Rightarrow> copy_original env inp vout iout files2)
            \<and> (case result of
                 Inl err \<Rightarrow> is_os_error err
               | Inr (v, i) \<Rightarrow>
                   v = vout \<and> i = iout \<and> files' vout \<noteq> None \<and> files' iout \<noteq> None
                   \<and> (content \<noteq> [] \<and> encoder_nonempty env \<and> separator_keeps env inp vout files
                        \<longrightarrow> files' vout \<noteq> Some [] \<and> files' iout \<noteq> Some [])))"
proof (intro conjI impI)
  assume "e = ImportError"
  with assms show "result = Inl ImportError" "files' = files1"
    by (auto simp: separate_vocals_instrumental_def os_path_exists_def)
next
  assume ne: "e \<noteq> ImportError"
  obtain rb fb where b: "simple_vocal_separation env inp vout iout files1 = (rb, fb)" by fastforce
  obtain rc fc where c: "copy_original env inp vout iout fb = (rc, fc)" by fastforce
  show run: "(result, files') =
              (case simple_vocal_separation env inp vout iout files1 of
                 (Inr r, files2) \<Rightarrow> (Inr r, files2)
               | (Inl fallback_error, files2) \<Rightarrow> copy_original env inp vout iout files2)"
    using assms ne by (auto simp: separate_vocals_instrumental_def os_path_exists_def)
  note B = simple_cases[OF b]
  note C = copy_original_cases[OF c]
  have keepA: "separator_keeps env inp vout files \<Longrightarrow>
                 vout = inp \<or> iout = inp \<or> files1 inp = None \<or> files1 inp = files inp"
    using primary_keeps[OF _ assms(2)] by blast
  show "case result of
          Inl err \<Rightarrow> is_os_error err
        | Inr (v, i) \<Rightarrow>
            v = vout \<and> i = iout \<and> files' vout \<noteq> None \<and> files' iout \<noteq> None
            \<and> (content \<noteq> [] \<and> encoder_nonempty env \<and> separator_keeps env inp vout files
                 \<longrightarrow> files' vout \<noteq> Some [] \<and> files' iout \<noteq> Some [])"
  proof (cases rb)
    case (Inr res)
    with run b have r: "result = Inr res" "files' = fb" by simp_all
    from B Inr have res: "res = (vout, iout)" by blast
    from B Inr consider
      (copy) content' where "vout \<noteq> inp" "iout \<noteq> inp" "files1 inp = Some content'"
         "fb vout = Some content'" "fb iout = Some content'"
      | (enc) y1 y2 sr c1 c2 where "wav_encode env y1 sr = Inr c1" "wav_encode env y2 sr = Inr c2"
         "fb vout = Some (if vout = iout then c2 else c1)" "fb iout = Some c2"
      by blast
    then show ?thesis
    proof cases
      case copy
      have "content' = content" if "separator_keeps env inp vout files"
        using keepA[OF that] copy assms(1) by auto
      with copy r res show ?thesis by auto
    next
      case enc
      then show ?thesis using r res by (auto simp: encoder_nonempty_def)
    qed
  next
    case (Inl e2)
    with run b c have r: "result = rc" "files' = fc" by simp_all
    from B have kb: "fb inp = files1 inp \<or> vout = inp \<or> iout = inp" by blast
    from C show ?thesis
    proof (elim disjE exE conjE)
      fix err assume "rc = Inl err" "is_os_error err"
      with r show ?thesis by simp
    next
      fix content' assume a: "rc = Inr (vout, iout)" "vout \<noteq> inp" "iout \<noteq> inp"
        "fb inp = Some content'" "fc vout = Some content'" "fc iout = Some content'"
      have "content' = content" if "separator_keeps env inp vout files"
        using keepA[OF that] a kb assms(1) by auto
      with a r show ?thesis by auto
    qed
  qed
qed

theorem fallback_chain_witness:
  "sample_files ''mix.wav'' = Some [1, 2, 3]
   \<and> primary_separation sample_env ''mix.wav'' ''out/vocal.wav'' ''out/inst.wav'' sample_files
       = (Inl OSError, sample_files)
   \<and> OSError \<noteq> ImportError
   \<and> fst (separate_vocals_instrumental sample_env ''mix.wav'' ''out/vocal.wav'' ''out/inst.wav''
            sample_files) = Inr (''out/vocal.wav'', ''out/inst.wav'')
   \<and> snd (separate_vocals_instrumental sample_env ''mix.wav'' ''out/vocal.wav'' ''out/inst.wav''
            sample_files) ''out/vocal.wav'' \<noteq> None
   \<and> snd (separate_vocals_instrumental sample_env ''mix.wav'' ''out/vocal.wav'' ''out/inst.wav''
            sample_files) ''out/vocal.wav'' \<noteq> Some []
   \<and> snd (separate_vocals_instrumental sample_env ''mix.wav'' ''out/vocal.wav'' ''out/inst.wav''
            sample_files) ''out/inst.wav'' \<noteq> Some []
   \<and> primary_separation sample_env_no_torch ''mix.wav'' ''out/vocal.wav'' ''out/inst.wav''
        sample_files = (Inl ImportError, sample_files)
   \<and> fst (separate_vocals_instrumental sample_env_no_torch ''mix.wav'' ''out/vocal.wav''
            ''out/inst.wav'' sample_files) = Inl ImportError"
proof -
  have h1: "sample_files ''mix.wav'' = Some [1, 2, 3]" by (simp add: sample_files_def)
  have ne: "[1, 2, 3] \<noteq> ([] :: nat list)" by simp
  from fallback_chain [OF h1 sample_primary sample_run] sample_keeps sample_encoder ne
  have a: "(sample_files(''out/vocal.wav'' \<mapsto> [1, 2, 3], ''out/inst.wav'' \<mapsto> [1, 2, 3])) ''out/vocal.wav'' \<noteq> None
         \<and> (sample_files(''out/vocal.wav'' \<mapsto> [1, 2, 3], ''out/inst.wav'' \<mapsto> [1, 2, 3])) ''out/vocal.wav'' \<noteq> Some []
         \<and> (sample_files(''out/vocal.wav'' \<mapsto> [1, 2, 3], ''out/inst.wav'' \<mapsto> [1, 2, 3])) ''out/inst.wav'' \<noteq> Some []"
    by simp
  from fallback_chain [OF h1 no_torch_primary no_torch_run]
  have b: "fst (separate_vocals_instrumental sample_env_no_torch ''mix.wav'' ''out/vocal.wav''
            ''out/inst.wav'' sample_files) = Inl ImportError"
    by (simp add: no_torch_run)
  from a b h1 show ?thesis
    by (simp add: sample_primary sample_run no_torch_primary)
qed

text \<open>
  Claim C9. When state A fails (with anything but \<^verbatim>\<open>ImportError\<close>) and state B fails,
  the result is that of state C. If state C returns, the vocal file and the instrumental
  file hold exactly the bytes that the input file held when the function was called; if
  it raises, the exception is a file-system error of one of its two copies and reaches the
  caller. The separation model is assumed not to alter its input file.
\<close>

theorem state_c_copies_input:
  assumes "files inp = Some content"
      and "separator_keeps env inp vout files"
      and "primary_separation env inp vout iout files = (Inl e, files1)"
      and "e \<noteq> ImportError"
      and "simple_vocal_separation env inp vout iout files1 = (Inl e2, files2)"
      and "separate_vocals_instrumental env inp vout iout files = (result, files')"
  shows "(result, files') = copy_original env inp vout iout files2
       \<and> (case result of
            Inl err \<Rightarrow> is_os_error err
          | Inr (v, i) \<Rightarrow>
              v = vout \<and> i = iout \<and> files' vout = Some content \<and> files' iout = Some content)"
proof -
  have run: "(result, files') = copy_original env inp vout iout files2"
    using assms by (auto simp: separate_vocals_instrumental_def os_path_exists_def)
  note A = primary_keeps[OF assms(2,3)]
  from simple_cases[OF assms(5)]
  have kb: "files2 inp = files1 inp \<or> vout = inp \<or> iout = inp" by blast
  from copy_original_cases[OF run[symmetric]]
  have "case result of
            Inl err \<Rightarrow> is_os_error err
          | Inr (v, i) \<Rightarrow>
              v = vout \<and> i = iout \<and> files' vout = Some content \<and> files' iout = Some content"
  proof (elim disjE exE conjE)
    fix err assume "result = Inl err" "is_os_error err"
    then show ?thesis by simp
  next
    fix content' assume a: "result = Inr (vout, iout)" "vout \<noteq> inp" "iout \<noteq> inp"
        "files2 inp = Some content'" "files' vout = Some content'" "files' iout = Some content'"
    with A kb assms(1) have "content' = content" by auto
    with a show ?thesis by simp
  qed
  with run show ?thesis by blast
qed

theorem state_c_copies_input_witness:
  "sample_files ''mix.wav'' = Some [1, 2, 3]
   \<and> separator_keeps sample_env ''mix.wav'' ''out/vocal.wav'' sample_files
   \<and> primary_separation sample_env ''mix.wav'' ''out/vocal.wav'' ''out/inst.wav'' sample_files
       = (Inl OSError, sample_files)
   \<and> OSError \<noteq> ImportError
   \<and> simple_vocal_separation sample_env ''mix.wav'' ''out/vocal.wav'' ''out/inst.wav'' sample_files
       = (Inl OtherException, sample_files)
   \<and> fst (separate_vocals_instrumental sample_env ''mix.wav'' ''out/vocal.wav'' ''out/inst.wav''
            sample_files) = Inr (''out/vocal.wav'', ''out/inst.wav'')
   \<and> snd (separate_vocals_instrumental sample_env ''mix.wav'' ''out/vocal.wav'' ''out/inst.wav''
            sample_files) ''out/vocal.wav'' = Some [1, 2, 3]
   \<and> snd (separate_vocals_instrumental sample_env ''mix.wav'' ''out/vocal.wav'' ''out/inst.wav''
            sample_files) ''out/inst.wav'' = Some [1, 2, 3]"
proof -
  have h1: "sample_files ''mix.wav'' = Some [1, 2, 3]" by (simp add: sample_files_def)
  have h4: "OSError \<noteq> ImportError" by simp
  from state_c_copies_input [OF h1 sample_keeps sample_primary h4 sample_simple sample_run]
  have "(sample_files(''out/vocal.wav'' \<mapsto> [1, 2, 3], ''out/inst.wav'' \<mapsto> [1, 2, 3])) ''out/vocal.wav'' = Some [1, 2, 3]
      \<and> (sample_files(''out/vocal.wav'' \<mapsto> [1, 2, 3], ''out/inst.wav'' \<mapsto> [1, 2, 3])) ''out/inst.wav'' = Some [1, 2, 3]"
    by simp
  with h1 sample_keeps show ?thesis
    by (simp add: sample_primary sample_simple sample_run)
qed

end
